theory Spec2Isabelle
  imports Complex_Main "HOL-Library.AList" "HOL-Library.Log_Nat"
begin

section \<open>Python values\<close>

text \<open>
  A Python \<open>str\<close> is a sequence of Unicode code points (surrogates included), so it is
  modelled as a list of naturals; \<open>ascii\<close> turns an ASCII literal into such a list.
\<close>

type_synonym pystr = "nat list"

definition ascii :: "string \<Rightarrow> pystr" where
  "ascii s = map of_char s"

definition valid_str :: "pystr \<Rightarrow> bool" where
  "valid_str s = list_all (\<lambda>c. c < 0x110000) s"

text \<open>
  A \<open>float\<close>: a finite number (its value, with the negative zero apart), an infinity or a
  NaN.
\<close>

datatype pyfloat = Finite rat | NegZero | PosInf | NegInf | NaN

text \<open>
  The values \<open>json.loads\<close> produces. A \<open>dict\<close> is an association list in insertion order.
\<close>

datatype json =
    JNull
  | JBool bool
  | JInt int
  | JFloat pyfloat
  | JStr pystr
  | JArr "json list"
  | JObj "(pystr \<times> json) list"

type_synonym pydict = "(pystr \<times> json) list"

text \<open>\<open>d[k] = v\<close>: an existing key keeps its position, a new key is appended.\<close>

definition dict_set :: "pydict \<Rightarrow> pystr \<Rightarrow> json \<Rightarrow> pydict" where
  "dict_set d k v = AList.update k v d"

text \<open>\<open>dict(pairs)\<close>: the pairs are inserted one after the other.\<close>

definition py_dict :: "(pystr \<times> json) list \<Rightarrow> pydict" where
  "py_dict pairs = foldl (\<lambda>d (k, v). dict_set d k v) [] pairs"

definition dict_get :: "pydict \<Rightarrow> pystr \<Rightarrow> json option" where
  "dict_get d k = map_of d k"

definition dict_keys :: "pydict \<Rightarrow> pystr set" where
  "dict_keys d = fst ` set d"

text \<open>
  The exceptions that occur. A \<open>ValueError\<close> has a message and the exception it was raised
  from, if any; \<open>JSONDecodeError\<close> is the subclass of \<open>ValueError\<close> that the decoder raises
  for a text that is not JSON.
\<close>

datatype exn =
    ValueError pystr "exn option"
  | JSONDecodeError
  | RecursionError
  | UnicodeEncodeError
  | AttributeError
  | TypeError
  | OSError
  | ClientError pystr

section \<open>Strings: strip, decimal digits, UTF-8\<close>

text \<open>\<open>str.isspace\<close> on one code point, and \<open>str.strip()\<close>.\<close>

definition py_isspace :: "nat \<Rightarrow> bool" where
  "py_isspace c =
     ((9 \<le> c \<and> c \<le> 13) \<or> (28 \<le> c \<and> c \<le> 32) \<or> c = 133 \<or> c = 160 \<or> c = 5760
      \<or> (8192 \<le> c \<and> c \<le> 8202) \<or> c = 8232 \<or> c = 8233 \<or> c = 8239 \<or> c = 8287
      \<or> c = 12288)"

definition strip :: "pystr \<Rightarrow> pystr" where
  "strip s = rev (dropWhile py_isspace (rev (dropWhile py_isspace s)))"

text \<open>\<open>str(n)\<close> for an integer: its decimal digits.\<close>

fun digits_of :: "nat \<Rightarrow> pystr" where
  "digits_of n = (if n < 10 then [48 + n] else digits_of (n div 10) @ [48 + n mod 10])"

declare digits_of.simps [simp del]

definition int_str :: "int \<Rightarrow> pystr" where
  "int_str i = (if i < 0 then 45 # digits_of (nat (- i)) else digits_of (nat i))"

text \<open>
  \<open>s.encode('utf-8')\<close>: one to four bytes per code point; a surrogate code point cannot
  be encoded and raises \<open>UnicodeEncodeError\<close>.
\<close>

definition utf8_char :: "nat \<Rightarrow> nat list option" where
  "utf8_char c =
     (if c < 0x80 then Some [c]
      else if c < 0x800 then Some [0xC0 + c div 64, 0x80 + c mod 64]
      else if 0xD800 \<le> c \<and> c \<le> 0xDFFF then None
      else if c < 0x10000 then
        Some [0xE0 + c div 4096, 0x80 + (c div 64) mod 64, 0x80 + c mod 64]
      else if c < 0x110000 then
        Some [0xF0 + c div 262144, 0x80 + (c div 4096) mod 64,
              0x80 + (c div 64) mod 64, 0x80 + c mod 64]
      else None)"

fun utf8_encode :: "pystr \<Rightarrow> nat list option" where
  "utf8_encode [] = Some []"
| "utf8_encode (c # cs) =
     (case utf8_char c of
        None \<Rightarrow> None
      | Some bs \<Rightarrow> (case utf8_encode cs of None \<Rightarrow> None | Some r \<Rightarrow> Some (bs @ r)))"

section \<open>The interpreter\<close>

text \<open>
  What the standard library takes from the interpreter that runs it: the limit on the
  number of digits in a conversion between \<open>int\<close> and \<open>str\<close>
  (\<open>sys.get_int_max_str_digits()\<close>: 4300 unless changed, 0 for no limit), the number of
  nested containers that \<open>json.loads\<close> and \<open>json.dumps\<close> can enter before the recursion
  limit is reached, and the conversions \<open>float(s)\<close> of a number literal and
  \<open>float.__repr__\<close> of a finite float.
\<close>

record interp =
  int_max_str_digits :: nat
  loads_depth :: nat
  dumps_depth :: nat
  float_of_str :: "pystr \<Rightarrow> pyfloat"
  float_repr :: "pyfloat \<Rightarrow> pystr"

text \<open>
  A conversion of more than 640 digits is refused when a limit is set and the number of
  digits is above it.
\<close>

definition too_many_digits :: "interp \<Rightarrow> nat \<Rightarrow> bool" where
  "too_many_digits py n = (640 < n \<and> 0 < int_max_str_digits py \<and> int_max_str_digits py < n)"

section \<open>json.loads\<close>

text \<open>
  The decoder of the standard library (\<open>json.decoder\<close>, \<open>json.scanner\<close>), which
  \<open>execute\<close> calls on the reply text. A result is the value read and the text left.
\<close>

definition is_ws :: "nat \<Rightarrow> bool" where
  "is_ws c = (c = 32 \<or> c = 9 \<or> c = 10 \<or> c = 13)"

definition skip_ws :: "pystr \<Rightarrow> pystr" where
  "skip_ws s = dropWhile is_ws s"

definition is_digit :: "nat \<Rightarrow> bool" where
  "is_digit c = (48 \<le> c \<and> c \<le> 57)"

definition nat_of_digits :: "pystr \<Rightarrow> nat" where
  "nat_of_digits ds = foldl (\<lambda>a d. 10 * a + (d - 48)) 0 ds"

definition hexval :: "nat \<Rightarrow> nat option" where
  "hexval c =
     (if 48 \<le> c \<and> c \<le> 57 then Some (c - 48)
      else if 97 \<le> c \<and> c \<le> 102 then Some (c - 87)
      else if 65 \<le> c \<and> c \<le> 70 then Some (c - 55)
      else None)"

text \<open>The four hexadecimal digits of a \<open>\uXXXX\<close> escape.\<close>

definition decode_uXXXX :: "pystr \<Rightarrow> nat option" where
  "decode_uXXXX s =
     (case s of
        a # b # c # d # _ \<Rightarrow>
          (case hexval a of None \<Rightarrow> None | Some x \<Rightarrow>
          (case hexval b of None \<Rightarrow> None | Some y \<Rightarrow>
          (case hexval c of None \<Rightarrow> None | Some z \<Rightarrow>
          (case hexval d of None \<Rightarrow> None | Some w \<Rightarrow>
             Some (((x * 16 + y) * 16 + z) * 16 + w)))))
      | _ \<Rightarrow> None)"

text \<open>
  The text after \<open>\u\<close>: one escape, or two when a high surrogate is followed by the
  escape of a low surrogate, which are joined into one code point.
\<close>

definition scan_u :: "pystr \<Rightarrow> (nat \<times> pystr) option" where
  "scan_u es =
     (case decode_uXXXX es of
        None \<Rightarrow> None
      | Some uni \<Rightarrow>
          let r = drop 4 es in
          if 0xD800 \<le> uni \<and> uni \<le> 0xDBFF \<and> take 2 r = [92, 117] then
            (case decode_uXXXX (drop 2 r) of
               None \<Rightarrow> None
             | Some uni2 \<Rightarrow>
                 if 0xDC00 \<le> uni2 \<and> uni2 \<le> 0xDFFF
                 then Some (0x10000 + ((uni - 0xD800) * 1024 + (uni2 - 0xDC00)), drop 6 r)
                 else Some (uni, r))
          else Some (uni, r))"

text \<open>The one-letter escapes (the table \<open>BACKSLASH\<close>).\<close>

definition BACKSLASH :: "nat \<Rightarrow> nat option" where
  "BACKSLASH e =
     (if e = 34 then Some 34 else if e = 92 then Some 92 else if e = 47 then Some 47
      else if e = 98 then Some 8 else if e = 102 then Some 12 else if e = 110 then Some 10
      else if e = 114 then Some 13 else if e = 116 then Some 9 else None)"

lemma scan_u_shorter: "scan_u es = Some (u, r) \<Longrightarrow> length r < Suc (length es)"
  by (auto simp: scan_u_def Let_def split: option.splits if_splits)

text \<open>
  \<open>scanstring\<close> (strict mode), from the character after the opening quote: the string
  read and the text after the closing quote.
\<close>

function scanstring :: "pystr \<Rightarrow> (pystr \<times> pystr) option" where
  "scanstring [] = None"
| "scanstring (c # cs) =
     (if c = 34 then Some ([], cs)
      else if c = 92 then
        (case cs of
           [] \<Rightarrow> None
         | e # es \<Rightarrow>
             if e = 117 then
               (case scan_u es of
                  None \<Rightarrow> None
                | Some (uni, r) \<Rightarrow>
                    (case scanstring r of
                       None \<Rightarrow> None
                     | Some (str, r') \<Rightarrow> Some (uni # str, r')))
             else
               (case BACKSLASH e of
                  None \<Rightarrow> None
                | Some ch \<Rightarrow>
                    (case scanstring es of
                       None \<Rightarrow> None
                     | Some (str, r') \<Rightarrow> Some (ch # str, r'))))
      else if c < 32 then None
      else
        (case scanstring cs of
           None \<Rightarrow> None
         | Some (str, r') \<Rightarrow> Some (c # str, r')))"
  by pat_completeness auto

termination
  by (relation "measure length") (auto dest: scan_u_shorter)

declare scanstring.simps(2) [simp del]

text \<open>
  \<open>NUMBER_RE\<close>: \<open>(-?(?:0|[1-9][0-9]*))(\.[0-9]+)?([eE][-+]?[0-9]+)?\<close>, group by group. Each
  part returns what it matched and the text left; an optional group that does not match
  takes nothing.
\<close>

definition match_sign :: "pystr \<Rightarrow> pystr \<times> pystr" where
  "match_sign s = (case s of [] \<Rightarrow> ([], s) | c # r \<Rightarrow> if c = 45 then ([45], r) else ([], s))"

definition match_int :: "pystr \<Rightarrow> (pystr \<times> pystr) option" where
  "match_int s =
     (case s of
        [] \<Rightarrow> None
      | c # r \<Rightarrow>
          if \<not> is_digit c then None
          else if c = 48 then Some ([48], r)
          else Some (c # takeWhile is_digit r, dropWhile is_digit r))"

definition match_frac :: "pystr \<Rightarrow> pystr \<times> pystr" where
  "match_frac s =
     (case s of
        d # f # r \<Rightarrow>
          if d = 46 \<and> is_digit f then (d # f # takeWhile is_digit r, dropWhile is_digit r)
          else ([], s)
      | _ \<Rightarrow> ([], s))"

definition match_exp :: "pystr \<Rightarrow> pystr \<times> pystr" where
  "match_exp s =
     (case s of
        [] \<Rightarrow> ([], s)
      | e # r \<Rightarrow>
          if e = 101 \<or> e = 69 then
            (let (sg, r1) = (case r of
                               [] \<Rightarrow> ([], r)
                             | g # r2 \<Rightarrow> if g = 45 \<or> g = 43 then ([g], r2) else ([], r))
             in case r1 of
                  [] \<Rightarrow> ([], s)
                | x # r3 \<Rightarrow>
                    if is_digit x then (e # sg @ x # takeWhile is_digit r3, dropWhile is_digit r3)
                    else ([], s))
          else ([], s))"

text \<open>
  \<open>int(integer)\<close> on the sign and the digits of a literal: a \<open>ValueError\<close> above the limit
  on the number of digits.
\<close>

definition int_of_digits :: "interp \<Rightarrow> pystr \<Rightarrow> pystr \<Rightarrow> exn + int" where
  "int_of_digits py sign ds =
     (if too_many_digits py (length ds)
      then Inl (ValueError
                  (ascii ''Exceeds the limit ('' @ int_str (int (int_max_str_digits py))
                   @ ascii '' digits) for integer string conversion: value has ''
                   @ int_str (int (length ds))
                   @ ascii '' digits; use sys.set_int_max_str_digits() to increase the limit'')
                  None)
      else Inr (if sign = [] then int (nat_of_digits ds) else - int (nat_of_digits ds)))"

text \<open>
  With neither fraction nor exponent the literal is an \<open>int\<close>, otherwise a \<open>float\<close>, the
  value of \<open>float\<close> on the text of the literal. \<open>None\<close>: the text does not start with a
  number.
\<close>

definition match_number :: "interp \<Rightarrow> pystr \<Rightarrow> (exn + json \<times> pystr) option" where
  "match_number py s =
     (let (sign, s1) = match_sign s
      in case match_int s1 of
           None \<Rightarrow> None
         | Some (ds, s2) \<Rightarrow>
             let (frac, s3) = match_frac s2;
                 (ex, s4) = match_exp s3
             in if frac = [] \<and> ex = []
                then (case int_of_digits py sign ds of
                        Inl e \<Rightarrow> Some (Inl e)
                      | Inr i \<Rightarrow> Some (Inr (JInt i, s4)))
                else Some (Inr (JFloat (float_of_str py (sign @ ds @ frac @ ex)), s4)))"

text \<open>
  \<open>scan_once\<close>, \<open>JSONArray\<close> and \<open>JSONObject\<close>. \<open>JSONArray\<close> starts at the first element,
  \<open>JSONObject\<close> after the opening quote of a key. A text that is not JSON raises
  \<open>JSONDecodeError\<close>. The third argument is the number of nested containers that can
  still be entered: at an opening bracket or brace with none left the decoder raises
  \<open>RecursionError\<close>. The second argument bounds the number of nested calls of these
  three functions; \<open>json_loads\<close> starts with more than twice the length of the text, which
  is never used up, as each call reads at least one character.
\<close>

fun scan_once :: "interp \<Rightarrow> nat \<Rightarrow> nat \<Rightarrow> pystr \<Rightarrow> exn + json \<times> pystr"
  and JSONArray :: "interp \<Rightarrow> nat \<Rightarrow> nat \<Rightarrow> pystr \<Rightarrow> exn + json list \<times> pystr"
  and JSONObject :: "interp \<Rightarrow> nat \<Rightarrow> nat \<Rightarrow> pystr \<Rightarrow> exn + (pystr \<times> json) list \<times> pystr"
where
  "scan_once py 0 d s = Inl RecursionError"
| "scan_once py (Suc n) d s =
     (case s of
        [] \<Rightarrow> Inl JSONDecodeError
      | c # r \<Rightarrow>
          if c = 34 then
            (case scanstring r of
               None \<Rightarrow> Inl JSONDecodeError
             | Some (str, r') \<Rightarrow> Inr (JStr str, r'))
          else if c = 123 then
            (case d of
               0 \<Rightarrow> Inl RecursionError
             | Suc d' \<Rightarrow>
                 (case skip_ws r of
                    [] \<Rightarrow> Inl JSONDecodeError
                  | q # r1 \<Rightarrow>
                      if q = 125 then Inr (JObj [], r1)
                      else if q = 34 then
                        (case JSONObject py n d' r1 of
                           Inl e \<Rightarrow> Inl e
                         | Inr (pairs, r') \<Rightarrow> Inr (JObj (py_dict pairs), r'))
                      else Inl JSONDecodeError))
          else if c = 91 then
            (case d of
               0 \<Rightarrow> Inl RecursionError
             | Suc d' \<Rightarrow>
                 (case skip_ws r of
                    [] \<Rightarrow> Inl JSONDecodeError
                  | q # r1 \<Rightarrow>
                      if q = 93 then Inr (JArr [], r1)
                      else
                        (case JSONArray py n d' (q # r1) of
                           Inl e \<Rightarrow> Inl e
                         | Inr (vs, r') \<Rightarrow> Inr (JArr vs, r'))))
          else if take 4 s = ascii ''null'' then Inr (JNull, drop 4 s)
          else if take 4 s = ascii ''true'' then Inr (JBool True, drop 4 s)
          else if take 5 s = ascii ''false'' then Inr (JBool False, drop 5 s)
          else
            (case match_number py s of
               Some m \<Rightarrow> m
             | None \<Rightarrow>
                 if take 3 s = ascii ''NaN'' then Inr (JFloat NaN, drop 3 s)
                 else if take 8 s = ascii ''Infinity'' then Inr (JFloat PosInf, drop 8 s)
                 else if take 9 s = ascii ''-Infinity'' then Inr (JFloat NegInf, drop 9 s)
                 else Inl JSONDecodeError))"
| "JSONArray py 0 d s = Inl RecursionError"
| "JSONArray py (Suc n) d s =
     (case scan_once py n d s of
        Inl e \<Rightarrow> Inl e
      | Inr (v, r) \<Rightarrow>
          (case skip_ws r of
             [] \<Rightarrow> Inl JSONDecodeError
           | c # r1 \<Rightarrow>
               if c = 93 then Inr ([v], r1)
               else if c = 44 then
                 (case JSONArray py n d (skip_ws r1) of
                    Inl e \<Rightarrow> Inl e
                  | Inr (vs, r') \<Rightarrow> Inr (v # vs, r'))
               else Inl JSONDecodeError))"
| "JSONObject py 0 d s = Inl RecursionError"
| "JSONObject py (Suc n) d s =
     (case scanstring s of
        None \<Rightarrow> Inl JSONDecodeError
      | Some (k, r) \<Rightarrow>
          (case skip_ws r of
             [] \<Rightarrow> Inl JSONDecodeError
           | c # r1 \<Rightarrow>
               if c \<noteq> 58 then Inl JSONDecodeError
               else
                 (case scan_once py n d (skip_ws r1) of
                    Inl e \<Rightarrow> Inl e
                  | Inr (v, r2) \<Rightarrow>
                      (case skip_ws r2 of
                         [] \<Rightarrow> Inl JSONDecodeError
                       | c' # r3 \<Rightarrow>
                           if c' = 125 then Inr ([(k, v)], r3)
                           else if c' = 44 then
                             (case skip_ws r3 of
                                [] \<Rightarrow> Inl JSONDecodeError
                              | q # r4 \<Rightarrow>
                                  if q = 34 then
                                    (case JSONObject py n d r4 of
                                       Inl e \<Rightarrow> Inl e
                                     | Inr (pairs, r') \<Rightarrow> Inr ((k, v) # pairs, r'))
                                  else Inl JSONDecodeError)
                           else Inl JSONDecodeError))))"

text \<open>
  \<open>json.loads(s)\<close>: leading whitespace, one value, trailing whitespace, nothing else.
\<close>

definition json_loads :: "interp \<Rightarrow> pystr \<Rightarrow> exn + json" where
  "json_loads py s =
     (case scan_once py (Suc (Suc (length s + length s))) (loads_depth py) (skip_ws s) of
        Inl e \<Rightarrow> Inl e
      | Inr (obj, r) \<Rightarrow> if skip_ws r = [] then Inr obj else Inl JSONDecodeError)"

section \<open>json.dumps with indent=2\<close>











section \<open>The clock\<close>

text \<open>
  The readings of \<open>time.perf_counter()\<close> are doubles, and \<open>end_time - start_time\<close> is the
  subtraction of doubles: the exact difference rounded to the nearest double, to the
  even one of two that are equally near. \<open>fl64\<close> rounds a rational to 53 significant
  bits; \<open>expo x\<close> is the exponent of the power of two at or below \<open>x\<close>. Overflow and
  subnormal numbers are left out: they do not occur for the readings of a clock that
  counts seconds and for their differences.
\<close>

definition round_even :: "rat \<Rightarrow> int" where
  "round_even y =
     (let n = \<lfloor>y\<rfloor>; f = y - of_int n
      in if f < 1/2 then n else if 1/2 < f then n + 1 else if even n then n else n + 1)"

definition expo :: "rat \<Rightarrow> int" where
  "expo x =
     (let (p, q) = quotient_of x; e0 = bitlen p - bitlen q
      in if 2 powi e0 \<le> x then e0 else e0 - 1)"

definition fl64 :: "rat \<Rightarrow> rat" where
  "fl64 x =
     (if x = 0 then 0
      else let u = 2 powi (expo \<bar>x\<bar> - 52)
           in sgn x * of_int (round_even (\<bar>x\<bar> / u)) * u)"

section \<open>The model client and the world\<close>

datatype MessageRole = SYSTEM | USER

record ChatMessage =
  role :: MessageRole
  content :: pystr

text \<open>\<open>OutputDocument\<close>: two required fields of type \<open>str\<close>.\<close>

datatype field_type = StrField

type_synonym schema = "(pystr \<times> field_type) list"

definition OutputDocument :: schema where
  "OutputDocument = [(ascii ''draft_markdown'', StrField), (ascii ''final_markdown'', StrField)]"

text \<open>
  An instance of \<open>LLM\<close>, as far as \<open>execute\<close> uses it: the items of \<open>llm.metadata\<close>,
  \<open>llm.class_name()\<close>, and \<open>llm.as_structured_llm(cls).chat(messages)\<close>, which takes some
  time (a number of ticks of the clock) and then raises or returns a reply with a text
  \<open>message.content\<close>.
\<close>

record LLM =
  llm_metadata :: "(pystr \<times> json) list"
  class_name :: pystr
  as_structured_llm :: "schema \<Rightarrow> ChatMessage list \<Rightarrow> nat \<times> (exn + pystr)"

text \<open>What a caller can pass for an argument.\<close>

datatype pyobj = PyNone | PyInt int | PyStr pystr | PyLLM LLM

datatype log_level = DEBUG | INFO | ERROR

text \<open>
  The world outside the process: the monotonic clock behind \<open>time.perf_counter()\<close> (a
  counter of ticks and the number of ticks in a second), the interpreter, the chat calls
  sent so far, the records handed to the logger, and the files.
\<close>

record world =
  ticks :: nat
  ticks_per_second :: nat
  python :: interp
  chat_calls :: "ChatMessage list list"
  log_records :: "(log_level \<times> pystr) list"
  files :: "pystr \<Rightarrow> pystr option"
  can_open :: "pystr \<Rightarrow> bool"

text \<open>\<open>time.perf_counter()\<close>: the time on the clock in seconds, as a double.\<close>

definition perf_counter :: "world \<Rightarrow> rat" where
  "perf_counter w = fl64 (of_nat (ticks w) / of_nat (ticks_per_second w))"

definition logger :: "log_level \<Rightarrow> pystr \<Rightarrow> world \<Rightarrow> world" where
  "logger lev msg w = w\<lparr>log_records := log_records w @ [(lev, msg)]\<rparr>"

text \<open>\<open>sllm.chat(messages)\<close>: the call is sent, the time it takes passes.\<close>

definition chat ::
  "(ChatMessage list \<Rightarrow> nat \<times> (exn + pystr)) \<Rightarrow> ChatMessage list \<Rightarrow> world
    \<Rightarrow> (exn + pystr) \<times> world" where
  "chat sllm messages w =
     (let (elapsed, outcome) = sllm messages
      in (outcome, w\<lparr>chat_calls := chat_calls w @ [messages],
                       ticks := ticks w + elapsed\<rparr>))"

section \<open>CleanupPitch\<close>

definition SYSTEM_PROMPT :: pystr where
  "SYSTEM_PROMPT = ascii (
     ''\<newline>'' @
     ''You are a content formatter. Transform a JSON object containing project pitch sections into a compelling Markdown document.\<newline>'' @
     ''\<newline>'' @
     ''# Instructions\<newline>'' @
     ''\<newline>'' @
     ''1.  **Input:** JSON with section titles as keys and content as values.\<newline>'' @
     ''\<newline>'' @
     ''2.  **Draft Markdown:** Iterate through all sections in the JSON object and perform the following steps:\<newline>'' @
     ''    - Convert suitable text into markdown with bulleted lists.\<newline>'' @
     ''    - Rewrite sentences to be more impactful and persuasive.\<newline>'' @
     ''    - You are encouraged to move sentences around to improve the flow of the text.\<newline>'' @
     ''\<newline>'' @
     ''3.  **Draft Markdown Restrictions:**\<newline>'' @
     ''    - Use ONLY the provided text. Do not add external information (website addresses, contact details, dates, etc.)\<newline>'' @
     ''    - Do not remove any sections or section text unless it is irrelevant.\<newline>'' @
     ''    - The reformatted pitch must cover the same topics as the original JSON object.\<newline>'' @
     ''    - Use newlines before and after headings.\<newline>'' @
     ''\<newline>'' @
     ''4. **Tone:**\<newline>'' @
     ''    - For short, everyday tasks: Use an informal, energetic tone, fewer paragraphs, shorter bullet points.\<newline>'' @
     [CHR 0x09] @ ''- For big, strategic projects: Adopt a formal, detailed style, multiple sections, more thorough risk/benefit analysis.\<newline>'' @
     ''\<newline>'' @
     ''5.  **Final Markdown:**\<newline>'' @
     ''    - Take the draft markdown and refine it further.\<newline>'' @
     ''    - Bold important keywords or phrases, like **very important words**.\<newline>'' @
     ''    - Repair invalid markdown syntax.\<newline>'' @
     ''    - Ensure the final markdown is well-structured.\<newline>'' @
     ''\<newline>'' @
     ''6.  **Final Markdown Restrictions:**\<newline>'' @
     ''    - Markdown headings: Use `# Top Level` for the document title. Use `## Second Level` for section titles. Do NOT use more than two levels of headings.\<newline>'' @
     ''    - Don't bold headings or subheadings, since they are already formatted.\<newline>'' @
     ''\<newline>'' @
     ''# Example of markdown formatting\<newline>'' @
     ''\<newline>'' @
     ''```markdown\<newline>'' @
     ''# Document title\<newline>'' @
     ''\<newline>'' @
     ''## Section Title\<newline>'' @
     ''\<newline>'' @
     ''Paragraph with text. Use bullet points for lists.\<newline>'' @
     ''- I'm a bullet point\<newline>'' @
     ''- Another bullet point\<newline>'' @
     ''- Yet another bullet point\<newline>'' @
     ''\<newline>'' @
     ''## Another Section Title\<newline>'' @
     ''\<newline>'' @
     ''etc.\<newline>'' @
     ''\<newline>'' @
     ''```\<newline>'')"

record CleanupPitch =
  system_prompt :: "pystr option"
  user_prompt :: pystr
  response :: json
  metadata :: pydict

definition execute :: "pyobj \<Rightarrow> pyobj \<Rightarrow> world \<Rightarrow> (exn + CleanupPitch) \<times> world" where
  "execute llm_arg user_prompt_arg w =
     (case llm_arg of
        PyLLM llm \<Rightarrow>
          (case user_prompt_arg of
             PyStr user_prompt' \<Rightarrow>
               let system_prompt' = strip SYSTEM_PROMPT;
                   chat_message_list =
                     [\<lparr>role = SYSTEM, content = system_prompt'\<rparr>,
                      \<lparr>role = USER, content = user_prompt'\<rparr>];
                   w1 = logger DEBUG (ascii ''User Prompt:\<newline>'' @ user_prompt') w;
                   sllm = as_structured_llm llm OutputDocument;
                   w2 = logger DEBUG (ascii ''Starting LLM chat interaction.'') w1;
                   start_time = perf_counter w2;
                   (chat_response, w3) = chat sllm chat_message_list w2
               in (case chat_response of
                     Inl e \<Rightarrow> (Inl e, w3)
                   | Inr message_content \<Rightarrow>
                       let end_time = perf_counter w3;
                           duration = \<lceil>fl64 (end_time - start_time)\<rceil>
                       in (case utf8_encode message_content of
                             None \<Rightarrow> (Inl UnicodeEncodeError, w3)
                           | Some bytes \<Rightarrow>
                               let response_byte_count = int (length bytes);
                                   w4 = logger INFO
                                     (ascii ''LLM chat interaction completed in ''
                                      @ int_str duration
                                      @ ascii '' seconds. Response byte count: ''
                                      @ int_str response_byte_count) w3;
                                   metadata' = py_dict (llm_metadata llm);
                                   metadata' = dict_set metadata' (ascii ''llm_classname'')
                                                (JStr (class_name llm));
                                   metadata' = dict_set metadata' (ascii ''duration'')
                                                (JInt duration);
                                   metadata' = dict_set metadata' (ascii ''response_byte_count'')
                                                (JInt response_byte_count)
                               in (case json_loads (python w4) message_content of
                                     Inl e \<Rightarrow>
                                       if e = JSONDecodeError
                                       then (Inl (ValueError
                                                    (ascii ''Invalid JSON response from LLM.'')
                                                    (Some e)),
                                             logger ERROR
                                               (ascii ''Failed to parse LLM response as JSON.'') w4)
                                       else (Inl e, w4)
                                   | Inr json_response \<Rightarrow>
                                       (Inr \<lparr>system_prompt = Some system_prompt',
                                             user_prompt = user_prompt',
                                             response = json_response,
                                             metadata = metadata'\<rparr>,
                                        logger DEBUG
                                          (ascii ''CleanupPitch instance created successfully.'')
                                          w4))))
           | _ \<Rightarrow> (Inl (ValueError (ascii ''Invalid query.'') None), w))
      | _ \<Rightarrow> (Inl (ValueError (ascii ''Invalid LLM instance.'') None), w))"

text \<open>
  \<open>to_dict\<close>. \<open>self.response.copy()\<close> exists for a \<open>dict\<close> and for a \<open>list\<close>; a list
  cannot be indexed by a string.
\<close>

definition to_dict :: "CleanupPitch \<Rightarrow> bool \<Rightarrow> bool \<Rightarrow> bool \<Rightarrow> exn + json" where
  "to_dict self include_metadata include_system_prompt include_user_prompt =
     (case response self of
        JObj copy \<Rightarrow>
          let d = copy;
              d = (if include_metadata
                   then dict_set d (ascii ''metadata'') (JObj (metadata self)) else d);
              d = (if include_system_prompt
                   then dict_set d (ascii ''system_prompt'')
                          (case system_prompt self of None \<Rightarrow> JNull | Some s \<Rightarrow> JStr s)
                   else d);
              d = (if include_user_prompt
                   then dict_set d (ascii ''user_prompt'') (JStr (user_prompt self)) else d)
          in Inr (JObj d)
      | JArr copy \<Rightarrow>
          if include_metadata \<or> include_system_prompt \<or> include_user_prompt
          then Inl TypeError else Inr (JArr copy)
      | _ \<Rightarrow> Inl AttributeError)"


section \<open>Vocabulary of the properties\<close>

text \<open>The conversation \<open>execute\<close> builds for a user prompt.\<close>

definition conversation :: "pystr \<Rightarrow> ChatMessage list" where
  "conversation up =
     [\<lparr>role = SYSTEM, content = strip SYSTEM_PROMPT\<rparr>, \<lparr>role = USER, content = up\<rparr>]"

text \<open>A value is a \<open>dict\<close> that has the field, and the field is a \<open>str\<close>.\<close>

definition has_str_field :: "json \<Rightarrow> pystr \<Rightarrow> bool" where
  "has_str_field v f =
     (case v of
        JObj d \<Rightarrow> (case dict_get d f of Some (JStr s) \<Rightarrow> True | _ \<Rightarrow> False)
      | _ \<Rightarrow> False)"

text \<open>A value has every field a class such as \<open>OutputDocument\<close> requires.\<close>

definition conforms :: "schema \<Rightarrow> json \<Rightarrow> bool" where
  "conforms cls v = list_all (\<lambda>(f, ty). case ty of StrField \<Rightarrow> has_str_field v f) cls"

text \<open>
  Values that \<open>json.dumps\<close> followed by \<open>json.loads\<close> gives back unchanged. A string must
  hold code points only, and no high surrogate directly before a low one: the encoder
  writes each surrogate as its own \<open>\uXXXX\<close> escape, and the decoder joins such a pair of
  escapes into one code point.
\<close>

definition is_high :: "nat \<Rightarrow> bool" where
  "is_high c = (0xD800 \<le> c \<and> c \<le> 0xDBFF)"

definition is_low :: "nat \<Rightarrow> bool" where
  "is_low c = (0xDC00 \<le> c \<and> c \<le> 0xDFFF)"

fun no_pair :: "pystr \<Rightarrow> bool" where
  "no_pair (c # d # s) = (\<not> (is_high c \<and> is_low d) \<and> no_pair (d # s))"
| "no_pair s = True"

definition wf_str :: "pystr \<Rightarrow> bool" where
  "wf_str s = (valid_str s \<and> no_pair s)"

text \<open>
  A text that is a number literal with a fraction or an exponent, and nothing after it.
\<close>

definition is_float_literal :: "pystr \<Rightarrow> bool" where
  "is_float_literal s =
     (let (sign, s1) = match_sign s
      in case match_int s1 of
           None \<Rightarrow> False
         | Some (ds, s2) \<Rightarrow>
             let (frac, s3) = match_frac s2;
                 (ex, s4) = match_exp s3
             in s4 = [] \<and> (frac \<noteq> [] \<or> ex \<noteq> []))"

text \<open>
  A float that is written and read back as itself: an infinity, or a finite float whose
  \<open>repr\<close> is such a literal that \<open>float\<close> turns into the same float again, as the \<open>repr\<close>
  of every finite float is. A NaN is read back as a NaN, which is not equal to itself.
\<close>

definition float_ok :: "interp \<Rightarrow> pyfloat \<Rightarrow> bool" where
  "float_ok py x =
     (case x of
        NaN \<Rightarrow> False
      | PosInf \<Rightarrow> True
      | NegInf \<Rightarrow> True
      | _ \<Rightarrow> is_float_literal (float_repr py x) \<and> float_of_str py (float_repr py x) = x)"

text \<open>
  A value: every \<open>int\<close> within the limit on the number of digits, such floats and such
  strings only, and the keys of every \<open>dict\<close> distinct (as they are in a Python \<open>dict\<close>).
\<close>

fun wf_json :: "interp \<Rightarrow> json \<Rightarrow> bool"
  and wf_list :: "interp \<Rightarrow> json list \<Rightarrow> bool"
  and wf_dict :: "interp \<Rightarrow> (pystr \<times> json) list \<Rightarrow> bool"
where
  "wf_json py JNull = True"
| "wf_json py (JBool b) = True"
| "wf_json py (JInt i) = (\<not> too_many_digits py (length (digits_of (nat \<bar>i\<bar>))))"
| "wf_json py (JFloat x) = float_ok py x"
| "wf_json py (JStr s) = wf_str s"
| "wf_json py (JArr vs) = wf_list py vs"
| "wf_json py (JObj d) = (distinct (map fst d) \<and> wf_dict py d)"
| "wf_list py [] = True"
| "wf_list py (v # vs) = (wf_json py v \<and> wf_list py vs)"
| "wf_dict py [] = True"
| "wf_dict py ((k, v) # d) = (wf_str k \<and> wf_json py v \<and> wf_dict py d)"

text \<open>The number of containers nested in a value.\<close>

fun json_depth :: "json \<Rightarrow> nat"
  and depth_list :: "json list \<Rightarrow> nat"
  and depth_dict :: "(pystr \<times> json) list \<Rightarrow> nat"
where
  "json_depth (JArr vs) = Suc (depth_list vs)"
| "json_depth (JObj d) = Suc (depth_dict d)"
| "json_depth v = 0"
| "depth_list [] = 0"
| "depth_list (v # vs) = max (json_depth v) (depth_list vs)"
| "depth_dict [] = 0"
| "depth_dict ((k, v) # d) = max (json_depth v) (depth_dict d)"





fun cost :: "json \<Rightarrow> nat"
  and cost_list :: "json list \<Rightarrow> nat"
  and cost_dict :: "(pystr \<times> json) list \<Rightarrow> nat"
where
  "cost (JArr vs) = Suc (cost_list vs)"
| "cost (JObj d) = Suc (cost_dict d)"
| "cost v = 1"
| "cost_list [] = 0"
| "cost_list (v # vs) = Suc (cost v + cost_list vs)"
| "cost_dict [] = 0"
| "cost_dict ((k, v) # d) = Suc (cost v + cost_dict d)"

text \<open>\<open>isinstance(llm, LLM)\<close> and \<open>isinstance(user_prompt, str)\<close>.\<close>

definition isinstance_LLM :: "pyobj \<Rightarrow> bool" where
  "isinstance_LLM a = (case a of PyLLM llm \<Rightarrow> True | _ \<Rightarrow> False)"

definition isinstance_str :: "pyobj \<Rightarrow> bool" where
  "isinstance_str a = (case a of PyStr s \<Rightarrow> True | _ \<Rightarrow> False)"

section \<open>Example inputs\<close>

text \<open>
  A stub client that answers every chat with the same outcome after a fixed number of
  ticks. Its own metadata already has an entry \<open>duration\<close>.
\<close>

definition stub_llm :: "nat \<Rightarrow> exn + pystr \<Rightarrow> LLM" where
  "stub_llm t outcome =
     \<lparr>llm_metadata = [(ascii ''model_name'', JStr (ascii ''stub'')), (ascii ''duration'', JInt 7)],
      class_name = ascii ''StubLLM'',
      as_structured_llm = (\<lambda>cls messages. (t, outcome))\<rparr>"

text \<open>
  An interpreter with the limits at 4300 digits and 1000 nested containers; the two
  conversions are given for the float 0.5, every other finite float being taken for 0.0.
  A world whose clock has ten ticks in a second and reads 10.0, with this interpreter.
\<close>

definition float_of_str0 :: "pystr \<Rightarrow> pyfloat" where
  "float_of_str0 s = (if s = ascii ''0.5'' then Finite (1/2) else Finite 0)"

definition float_repr0 :: "pyfloat \<Rightarrow> pystr" where
  "float_repr0 x = (if x = Finite (1/2) then ascii ''0.5'' else ascii ''0.0'')"

definition python0 :: interp where
  "python0 = \<lparr>int_max_str_digits = 4300, loads_depth = 1000, dumps_depth = 1000,
              float_of_str = float_of_str0, float_repr = float_repr0\<rparr>"

definition world0 :: world where
  "world0 = \<lparr>ticks = 100, ticks_per_second = 10, python = python0, chat_calls = [],
             log_records = [], files = (\<lambda>p. None), can_open = (\<lambda>p. True)\<rparr>"


definition world2 :: world where
  "world2 = world0\<lparr>python := python0\<lparr>loads_depth := 2\<rparr>\<rparr>"

text \<open>The reply \<open>{"draft_markdown": "# A\n", "final_markdown": "# A\n"}\<close> and its value.\<close>

definition example_reply :: pystr where
  "example_reply =
     [123, 34] @ ascii ''draft_markdown'' @ [34, 58, 32, 34] @ ascii ''# A'' @ [92, 110, 34, 44, 32, 34]
     @ ascii ''final_markdown'' @ [34, 58, 32, 34] @ ascii ''# A'' @ [92, 110, 34, 125]"

definition example_response :: json where
  "example_response =
     JObj [(ascii ''draft_markdown'', JStr [35, 32, 65, 10]),
           (ascii ''final_markdown'', JStr [35, 32, 65, 10])]"

text \<open>A result whose response has a key \<open>metadata\<close> of its own.\<close>

definition example_result :: CleanupPitch where
  "example_result =
     \<lparr>system_prompt = None, user_prompt = ascii ''q'',
      response = JObj [(ascii ''metadata'', JInt 1), (ascii ''final_markdown'', JStr (ascii ''x''))],
      metadata = [(ascii ''duration'', JInt 3)]\<rparr>"




section \<open>Dictionaries\<close>

lemma dict_get_set: "dict_get (dict_set d k v) k' = (if k' = k then Some v else dict_get d k')"
  by (simp add: dict_get_def dict_set_def update_conv')

lemma dict_keys_set: "dict_keys (dict_set d k v) = insert k (dict_keys d)"
  by (simp add: dict_keys_def dict_set_def dom_update)

lemma to_dict_keys_distinct:
  "ascii ''metadata'' \<noteq> ascii ''system_prompt''"
  "ascii ''metadata'' \<noteq> ascii ''user_prompt''"
  "ascii ''system_prompt'' \<noteq> ascii ''user_prompt''"
  by (simp_all add: ascii_def)

lemma metadata_keys_distinct:
  "ascii ''llm_classname'' \<noteq> ascii ''duration''"
  "ascii ''llm_classname'' \<noteq> ascii ''response_byte_count''"
  "ascii ''duration'' \<noteq> ascii ''response_byte_count''"
  by (simp_all add: ascii_def)

text \<open>\<open>dict(pairs)\<close> looks a key up in its last pair.\<close>

lemma dict_get_py_dict_aux:
  "map_of (foldl (\<lambda>d (k, v). dict_set d k v) acc ps) = map_of acc ++ map_of (rev ps)"
proof (induction ps arbitrary: acc)
  case Nil
  show ?case by simp
next
  case (Cons p ps)
  obtain k v where p: "p = (k, v)" by (cases p)
  have "map_of (foldl (\<lambda>d (k, v). dict_set d k v) acc (p # ps))
          = map_of (dict_set acc k v) ++ map_of (rev ps)"
    using Cons.IH [of "dict_set acc k v"] by (simp add: p)
  also have "\<dots> = map_of acc ++ map_of (rev (p # ps))"
    by (rule ext) (simp add: p dict_set_def update_conv' map_add_def split: option.splits)
  finally show ?case .
qed

lemma dict_get_py_dict: "dict_get (py_dict ps) k = map_of (rev ps) k"
  by (simp add: dict_get_def py_dict_def dict_get_py_dict_aux)

section \<open>Rounding to a double\<close>

text \<open>
  \<open>round_even\<close> rounds to a nearest integer; \<open>expo\<close> gives the binade of a positive number;
  \<open>fl64\<close> is monotone, and exact on the integers up to \<open>2^53\<close> and on their multiples by
  a power of two.
\<close>

lemma round_even_range: "\<lfloor>y\<rfloor> \<le> round_even y" "round_even y \<le> \<lfloor>y\<rfloor> + 1"
  by (simp_all add: round_even_def Let_def)

lemma round_even_of_int [simp]: "round_even (of_int n) = n"
  by (simp add: round_even_def)

lemma round_even_lower:
  assumes "of_int n \<le> y"
  shows "n \<le> round_even y"
proof -
  from assms have "n \<le> \<lfloor>y\<rfloor>" by (simp add: le_floor_iff)
  with round_even_range(1) [of y] show ?thesis by simp
qed

lemma round_even_upper:
  assumes "y \<le> of_int n"
  shows "round_even y \<le> n"
proof (cases "y = of_int n")
  case True
  then show ?thesis by simp
next
  case False
  with assms have "y < of_int n" by simp
  then have "\<lfloor>y\<rfloor> < n" by (simp add: floor_less_iff)
  with round_even_range(2) [of y] show ?thesis by simp
qed

lemma round_even_mono:
  assumes "y \<le> z"
  shows "round_even y \<le> round_even z"
proof (cases "\<lfloor>y\<rfloor> = \<lfloor>z\<rfloor>")
  case True
  with assms show ?thesis by (auto simp: round_even_def Let_def)
next
  case False
  with assms have "\<lfloor>y\<rfloor> < \<lfloor>z\<rfloor>" using floor_mono [OF assms] by simp
  with round_even_range(2) [of y] round_even_range(1) [of z] show ?thesis by simp
qed

lemma pow2_pos [simp]: "0 < (2::rat) powi e"
  by (simp add: zero_less_power_int)

lemma pow2_mono: "e \<le> e' \<Longrightarrow> (2::rat) powi e \<le> 2 powi e'"
  by (rule power_int_increasing) simp_all

lemma pow2_strict_mono: "e < e' \<Longrightarrow> (2::rat) powi e < 2 powi e'"
  by (rule power_int_strict_increasing) simp_all

lemma expo_bounds:
  assumes "0 < x"
  shows "2 powi (expo x) \<le> x" and "x < 2 powi (expo x + 1)"
proof -
  obtain p q where pq: "quotient_of x = (p, q)" by (cases "quotient_of x")
  have q: "0 < q" by (rule quotient_of_denom_pos [OF pq])
  have x: "x = of_int p / of_int q" by (rule quotient_of_div [OF pq])
  have p: "0 < p" using assms q by (simp add: x zero_less_divide_iff)
  define a where "a = bitlen p"
  define b where "b = bitlen q"
  have a1: "1 \<le> a" and b1: "1 \<le> b"
    using p q bitlen_eq_zero_iff [of p] bitlen_eq_zero_iff [of q] bitlen_nonneg [of p]
      bitlen_nonneg [of q]
    by (auto simp: a_def b_def)
  from bitlen_bounds [OF p] have "(2::int) ^ nat (a - 1) \<le> p" "p < 2 ^ nat a"
    by (simp_all add: a_def)
  then have "(of_int (2 ^ nat (a - 1)) :: rat) \<le> of_int p" "(of_int p :: rat) < of_int (2 ^ nat a)"
    by (simp_all only: of_int_le_iff of_int_less_iff)
  then have pb: "(2::rat) powi (a - 1) \<le> of_int p" "(of_int p :: rat) < 2 powi a"
    using a1 by (simp_all add: power_int_nonneg_exp)
  from bitlen_bounds [OF q] have "(2::int) ^ nat (b - 1) \<le> q" "q < 2 ^ nat b"
    by (simp_all add: b_def)
  then have "(of_int (2 ^ nat (b - 1)) :: rat) \<le> of_int q" "(of_int q :: rat) < of_int (2 ^ nat b)"
    by (simp_all only: of_int_le_iff of_int_less_iff)
  then have qb: "(2::rat) powi (b - 1) \<le> of_int q" "(of_int q :: rat) < 2 powi b"
    using b1 by (simp_all add: power_int_nonneg_exp)
  have qp: "(0::rat) < of_int q" and pp: "(0::rat) < of_int p" using p q by simp_all
  have up: "x < 2 powi (a - b + 1)"
  proof -
    have "x < 2 powi a / 2 powi (b - 1)"
      unfolding x using pp pb(2) qb(1) by (intro frac_less) simp_all
    also have "\<dots> = 2 powi (a - b + 1)"
      by (simp add: power_int_diff [symmetric] algebra_simps)
    finally show ?thesis .
  qed
  have lo: "2 powi (a - b - 1) \<le> x"
  proof -
    have "2 powi (a - 1) / 2 powi b \<le> of_int p / (of_int q :: rat)"
      using pb(1) qb(2) qp pp by (intro frac_le) simp_all
    moreover have "(2::rat) powi (a - 1) / 2 powi b = 2 powi (a - b - 1)"
      by (simp add: power_int_diff [symmetric] algebra_simps)
    ultimately show ?thesis by (simp add: x)
  qed
  have e: "expo x = (if 2 powi (a - b) \<le> x then a - b else a - b - 1)"
    by (simp add: expo_def pq a_def b_def)
  show "2 powi (expo x) \<le> x" using lo by (simp add: e)
  show "x < 2 powi (expo x + 1)" using up by (auto simp: e)
qed

lemma expo_unique:
  assumes "0 < x" and "2 powi e \<le> x" and "x < 2 powi (e + 1)"
  shows "expo x = e"
proof (rule antisym)
  show "expo x \<le> e"
  proof (rule ccontr)
    assume "\<not> expo x \<le> e"
    then have "e + 1 \<le> expo x" by simp
    from pow2_mono [OF this] expo_bounds(1) [OF assms(1)] assms(3) show False by simp
  qed
  show "e \<le> expo x"
  proof (rule ccontr)
    assume "\<not> e \<le> expo x"
    then have "expo x + 1 \<le> e" by simp
    from pow2_mono [OF this] expo_bounds(2) [OF assms(1)] assms(2) show False by simp
  qed
qed

lemma expo_mono:
  assumes "0 < x" and "x \<le> y"
  shows "expo x \<le> expo y"
proof (rule ccontr)
  assume "\<not> expo x \<le> expo y"
  then have "expo y + 1 \<le> expo x" by simp
  from pow2_mono [OF this] expo_bounds(1) [OF assms(1)] expo_bounds(2) [of y] assms
  show False by simp
qed


lemma fl64_pos:
  assumes "0 < x"
  shows "fl64 x = of_int (round_even (x / 2 powi (expo x - 52))) * 2 powi (expo x - 52)"
  using assms by (simp add: fl64_def Let_def)

lemma fl64_eval:
  assumes "0 < x" and "2 powi e \<le> x" and "x < 2 powi (e + 1)"
  shows "fl64 x = of_int (round_even (x / 2 powi (e - 52))) * 2 powi (e - 52)"
  using fl64_pos [OF assms(1)] expo_unique [OF assms] by simp

lemma pow2_split:
  "(2::rat) powi e = 2 ^ 52 * 2 powi (e - 52)" "(2::rat) powi (e + 1) = 2 ^ 53 * 2 powi (e - 52)"
  using power_int_add [of "2::rat" 52 "e - 52"] power_int_add [of "2::rat" 53 "e - 52"]
  by (simp_all add: add.commute)

lemma scaled_bounds:
  assumes "0 < x"
  shows "of_int (2 ^ 52) \<le> x / 2 powi (expo x - 52)" and "x / 2 powi (expo x - 52) \<le> of_int (2 ^ 53)"
proof -
  from expo_bounds(1) [OF assms] have "2 ^ 52 * 2 powi (expo x - 52) \<le> x"
    by (simp only: pow2_split(1) [symmetric])
  then have "(2::rat) ^ 52 \<le> x / 2 powi (expo x - 52)"
    by (simp only: pos_le_divide_eq [OF pow2_pos])
  then show "of_int (2 ^ 52) \<le> x / 2 powi (expo x - 52)" by simp
  from expo_bounds(2) [OF assms] have "x < 2 ^ 53 * 2 powi (expo x - 52)"
    by (simp only: pow2_split(2) [symmetric])
  then have "x / 2 powi (expo x - 52) < (2::rat) ^ 53"
    by (simp only: pos_divide_less_eq [OF pow2_pos])
  then show "x / 2 powi (expo x - 52) \<le> of_int (2 ^ 53)" by simp
qed

lemma fl64_pos_bounds:
  assumes "0 < x"
  shows "2 powi (expo x) \<le> fl64 x" and "fl64 x \<le> 2 powi (expo x + 1)"
proof -
  let ?u = "(2::rat) powi (expo x - 52)"
  have lo: "2 ^ 52 \<le> round_even (x / ?u)"
    by (rule round_even_lower [OF scaled_bounds(1) [OF assms]])
  have hi: "round_even (x / ?u) \<le> 2 ^ 53"
    by (rule round_even_upper [OF scaled_bounds(2) [OF assms]])
  have "(2::rat) powi (expo x) = of_int (2 ^ 52) * ?u"
    using pow2_split(1) [of "expo x"] by simp
  also have "\<dots> \<le> of_int (round_even (x / ?u)) * ?u"
    using lo by (intro mult_right_mono) (simp_all only: of_int_le_iff, simp)
  finally show "2 powi (expo x) \<le> fl64 x" by (simp add: fl64_pos [OF assms])
  have "of_int (round_even (x / ?u)) * ?u \<le> of_int (2 ^ 53) * ?u"
    using hi by (intro mult_right_mono) (simp_all only: of_int_le_iff, simp)
  also have "\<dots> = (2::rat) powi (expo x + 1)"
    using pow2_split(2) [of "expo x"] by simp
  finally show "fl64 x \<le> 2 powi (expo x + 1)" by (simp add: fl64_pos [OF assms])
qed

lemma fl64_pos_pos:
  assumes "0 < x"
  shows "0 < fl64 x"
  using pow2_pos [of "expo x"] fl64_pos_bounds(1) [OF assms] by (rule less_le_trans)

lemma fl64_mono_pos:
  assumes "0 < x" and "x \<le> y"
  shows "fl64 x \<le> fl64 y"
proof -
  have y: "0 < y" using assms by simp
  show ?thesis
  proof (cases "expo x = expo y")
    case True
    let ?u = "(2::rat) powi (expo y - 52)"
    have "x / ?u \<le> y / ?u" using assms(2) by (simp add: divide_right_mono)
    from round_even_mono [OF this]
    have "(of_int (round_even (x / ?u)) :: rat) \<le> of_int (round_even (y / ?u))" by simp
    then have "of_int (round_even (x / ?u)) * ?u \<le> of_int (round_even (y / ?u)) * ?u"
      by (intro mult_right_mono) simp_all
    then show ?thesis by (simp add: fl64_pos [OF assms(1)] fl64_pos [OF y] True)
  next
    case False
    with expo_mono [OF assms] have "expo x + 1 \<le> expo y" by simp
    from pow2_mono [OF this] fl64_pos_bounds(2) [OF assms(1)] fl64_pos_bounds(1) [OF y]
    show ?thesis by simp
  qed
qed

lemma fl64_0 [simp]: "fl64 0 = 0"
  by (simp add: fl64_def)

lemma fl64_minus: "fl64 (- x) = - fl64 x"
  by (simp add: fl64_def Let_def sgn_minus)

lemma fl64_mono:
  assumes "x \<le> y"
  shows "fl64 x \<le> fl64 y"
proof -
  consider (pos) "0 < x" | (neg) "y < 0" | (mid) "x \<le> 0" "0 \<le> y" by linarith
  then show ?thesis
  proof cases
    case pos
    then show ?thesis using assms by (rule fl64_mono_pos)
  next
    case neg
    have "fl64 (- y) \<le> fl64 (- x)" using neg assms by (intro fl64_mono_pos) simp_all
    then show ?thesis by (simp add: fl64_minus)
  next
    case mid
    have "fl64 x \<le> 0"
    proof (cases "x = 0")
      case False
      with mid have "0 < - x" by simp
      from fl64_pos_pos [OF this] show ?thesis by (simp add: fl64_minus)
    qed simp
    moreover have "0 \<le> fl64 y"
    proof (cases "y = 0")
      case False
      with mid have "0 < y" by simp
      from fl64_pos_pos [OF this] show ?thesis by simp
    qed simp
    ultimately show ?thesis by simp
  qed
qed

lemma fl64_exact:
  assumes "0 < x" and "x / 2 powi (expo x - 52) = of_int m"
  shows "fl64 x = x"
proof -
  have "fl64 x = of_int (round_even (of_int m)) * 2 powi (expo x - 52)"
    by (simp only: fl64_pos [OF assms(1)] assms(2))
  also have "\<dots> = x / 2 powi (expo x - 52) * 2 powi (expo x - 52)"
    by (simp only: round_even_of_int assms(2))
  also have "\<dots> = x" using pow2_pos [of "expo x - 52"] by simp
  finally show ?thesis .
qed

lemma fl64_of_nat:
  assumes "k \<le> 2 ^ 53"
  shows "fl64 (of_nat k) = of_nat k"
proof (cases "k = 0")
  case True
  then show ?thesis by simp
next
  case False
  let ?x = "of_nat k :: rat"
  have x: "0 < ?x" using False by simp
  have "?x \<le> 2 powi 53" using assms by (simp add: of_nat_le_iff [of k "2 ^ 53", where ?'a = rat, simplified])
  show ?thesis
  proof (cases "k = 2 ^ 53")
    case True
    have "fl64 (2 ^ 53) = 2 ^ 53"
    proof -
      have "fl64 (2 ^ 53) = of_int (round_even ((2 ^ 53) / 2 powi (53 - 52))) * 2 powi (53 - 52)"
        by (rule fl64_eval) simp_all
      also have "\<dots> = 2 ^ 53"
        using round_even_of_int [of "2 ^ 52"] by simp
      finally show ?thesis .
    qed
    then show ?thesis by (simp add: True)
  next
    case k: False
    with assms have "k < 2 ^ 53" by simp
    then have lt: "?x < 2 powi 53"
      by (simp add: of_nat_less_iff [of k "2 ^ 53", where ?'a = rat, simplified])
    have "expo ?x \<le> 52"
    proof (rule ccontr)
      assume "\<not> expo ?x \<le> 52"
      then have "53 \<le> expo ?x" by simp
      from pow2_mono [OF this] expo_bounds(1) [OF x] lt show False by simp
    qed
    then obtain j where j: "52 - expo ?x = int j"
      using zero_le_imp_eq_int [of "52 - expo ?x"] by auto
    then have "expo ?x - 52 = - int j" by simp
    then have "(2::rat) powi (expo ?x - 52) = inverse (2 ^ j)"
      by (simp add: power_int_minus)
    then have "?x / 2 powi (expo ?x - 52) = ?x * 2 ^ j"
      by (simp add: divide_inverse)
    also have "\<dots> = of_int (int k * 2 ^ j)" by simp
    finally show ?thesis by (rule fl64_exact [OF x])
  qed
qed

lemma expo_scale:
  assumes "0 < x"
  shows "expo (x * 2 powi j) = expo x + j"
proof (rule expo_unique)
  show "0 < x * 2 powi j" using assms by simp
  have "(2::rat) powi (expo x + j) = 2 powi (expo x) * 2 powi j" by (simp add: power_int_add)
  also have "\<dots> \<le> x * 2 powi j" using expo_bounds(1) [OF assms] by simp
  finally show "2 powi (expo x + j) \<le> x * 2 powi j" .
  have "x * 2 powi j < 2 powi (expo x + 1) * (2::rat) powi j"
    using expo_bounds(2) [OF assms] by simp
  also have "\<dots> = 2 powi (expo x + j + 1)"
    using power_int_add [of "2::rat" "expo x + 1" j] by (simp add: add.commute add.left_commute)
  finally show "x * 2 powi j < 2 powi (expo x + j + 1)" .
qed

lemma fl64_scale:
  assumes "0 < x"
  shows "fl64 (x * 2 powi j) = fl64 x * 2 powi j"
proof -
  have p: "0 < x * 2 powi j" using assms by simp
  have "expo x + j - 52 = (expo x - 52) + j" by simp
  then have u: "(2::rat) powi (expo x + j - 52) = 2 powi (expo x - 52) * 2 powi j"
    by (simp only: power_int_add [of "2::rat" "expo x - 52" j, simplified])
  have "x * 2 powi j / (2 powi (expo x - 52) * 2 powi j) = x / 2 powi (expo x - 52)"
    by simp
  then show ?thesis
    by (simp only: fl64_pos [OF p] fl64_pos [OF assms] expo_scale [OF assms] u)
qed


lemma fl64_dyadic:
  assumes "k \<le> 2 ^ 53"
  shows "fl64 (of_nat k * 2 powi j) = of_nat k * 2 powi j"
proof (cases "k = 0")
  case True
  then show ?thesis by simp
next
  case False
  then have "0 < (of_nat k :: rat)" by simp
  from fl64_scale [OF this] show ?thesis by (simp only: fl64_of_nat [OF assms])
qed




section \<open>execute\<close>

text \<open>What a call that returns a result has done.\<close>

lemma execute_Inr:
  assumes "execute a b w = (Inr r, w')"
  obtains llm up reply bytes where
    "a = PyLLM llm" and "b = PyStr up"
    and "snd (as_structured_llm llm OutputDocument (conversation up)) = Inr reply"
    and "utf8_encode reply = Some bytes"
    and "json_loads (python w) reply = Inr (response r)"
    and "system_prompt r = Some (strip SYSTEM_PROMPT)"
    and "user_prompt r = up"
    and "metadata r =
             dict_set (dict_set (dict_set (py_dict (llm_metadata llm))
               (ascii ''llm_classname'') (JStr (class_name llm)))
               (ascii ''duration'') (JInt \<lceil>fl64 (perf_counter w' - perf_counter w)\<rceil>))
               (ascii ''response_byte_count'') (JInt (int (length bytes)))"
    and "chat_calls w' = chat_calls w @ [conversation up]"
    and "ticks w' = ticks w + fst (as_structured_llm llm OutputDocument (conversation up))"
    and "ticks_per_second w' = ticks_per_second w"
  using assms
  by (auto simp: execute_def chat_def Let_def logger_def conversation_def perf_counter_def
           split: pyobj.splits sum.splits option.splits prod.splits if_splits)

text \<open>A reply that can be encoded and parsed gives a result: the parsed reply.\<close>

lemma execute_returns:
  assumes "snd (as_structured_llm llm OutputDocument (conversation up)) = Inr reply"
    and "utf8_encode reply = Some bytes"
    and "json_loads (python w) reply = Inr v"
  shows "\<exists>r w'. execute (PyLLM llm) (PyStr up) w = (Inr r, w') \<and> response r = v"
  using assms
  by (cases "as_structured_llm llm OutputDocument (conversation up)")
     (simp add: execute_def chat_def Let_def conversation_def logger_def)

lemma python_world0 [simp]: "python world0 = python0"
  by (simp add: world0_def)

lemma loads_depth_python0 [simp]: "loads_depth python0 = 1000"
  by (simp add: python0_def)

lemma loads_example_reply: "json_loads python0 example_reply = Inr example_response"
  by (simp add: example_reply_def example_response_def json_loads_def ascii_def skip_ws_def
        is_ws_def scanstring.simps BACKSLASH_def py_dict_def dict_set_def)

lemma utf8_example_reply: "utf8_encode example_reply = Some example_reply"
  by (simp add: example_reply_def ascii_def utf8_char_def)

lemma stub_reply:
  "as_structured_llm (stub_llm t outcome) cls messages = (t, outcome)"
  by (simp add: stub_llm_def)

text \<open>
  C1, as amended. \<open>execute\<close> checks nothing about the shape of the reply itself: the
  response of the result is the value the reply text parses to. So when the client's
  reply can be encoded as UTF-8 and \<open>json.loads\<close> returns a value for it that has the two
  fields of \<open>OutputDocument\<close> as strings, the call returns a result whose response is that
  value, with \<open>draft_markdown\<close> and \<open>final_markdown\<close> present as strings.
\<close>

theorem execute_conforming_reply:
  assumes "snd (as_structured_llm llm OutputDocument (conversation up)) = Inr reply"
    and "utf8_encode reply = Some bytes"
    and "json_loads (python w) reply = Inr v"
    and "conforms OutputDocument v"
  shows "\<exists>r w'. execute (PyLLM llm) (PyStr up) w = (Inr r, w') \<and> response r = v
           \<and> has_str_field (response r) (ascii ''draft_markdown'')
           \<and> has_str_field (response r) (ascii ''final_markdown'')"
proof -
  from execute_returns [OF assms(1-3)] obtain r w' where
    e: "execute (PyLLM llm) (PyStr up) w = (Inr r, w')" and r: "response r = v" by blast
  from assms(4) have "has_str_field v (ascii ''draft_markdown'')"
    and "has_str_field v (ascii ''final_markdown'')"
    by (simp_all add: conforms_def OutputDocument_def)
  with e r show ?thesis by auto
qed

theorem execute_conforming_reply_witness:
  "\<exists>r w'. execute (PyLLM (stub_llm 23 (Inr example_reply))) (PyStr (ascii ''hi'')) world0 = (Inr r, w')
      \<and> response r = example_response
      \<and> has_str_field (response r) (ascii ''draft_markdown'')
      \<and> has_str_field (response r) (ascii ''final_markdown'')"
proof -
  have "conforms OutputDocument example_response"
    by (simp add: conforms_def OutputDocument_def example_response_def has_str_field_def
          dict_get_def ascii_def)
  then show ?thesis
    using execute_conforming_reply [of "stub_llm 23 (Inr example_reply)" "ascii ''hi''"
        example_reply example_reply world0 example_response]
    by (simp add: stub_reply loads_example_reply utf8_example_reply)
qed

text \<open>
  C1 as stated fails: a client whose reply is the text \<open>{}\<close> gets a result whose response
  is the empty \<open>dict\<close>, with neither field.
\<close>

theorem execute_empty_object_reply:
  "\<exists>r w'. execute (PyLLM (stub_llm 0 (Inr (ascii ''{}'')))) (PyStr (ascii ''hi'')) world0 = (Inr r, w')
      \<and> response r = JObj []
      \<and> \<not> has_str_field (response r) (ascii ''draft_markdown'')
      \<and> \<not> has_str_field (response r) (ascii ''final_markdown'')"
proof -
  have l: "json_loads (python world0) (ascii ''{}'') = Inr (JObj [])"
    by (simp add: json_loads_def ascii_def skip_ws_def is_ws_def)
  have u: "utf8_encode (ascii ''{}'') = Some (ascii ''{}'')"
    by (simp add: ascii_def utf8_char_def)
  have s: "snd (as_structured_llm (stub_llm 0 (Inr (ascii ''{}''))) OutputDocument
             (conversation (ascii ''hi''))) = Inr (ascii ''{}'')"
    by (simp add: stub_reply)
  from execute_returns [OF s u l] obtain r w' where
    "execute (PyLLM (stub_llm 0 (Inr (ascii ''{}'')))) (PyStr (ascii ''hi'')) world0 = (Inr r, w')"
    "response r = JObj []"
    by blast
  then show ?thesis by (auto simp: has_str_field_def dict_get_def)
qed


lemma perf_counter_world0: "perf_counter world0 = 10"
  using fl64_of_nat [of 10] by (simp add: perf_counter_def world0_def)



text \<open>
  C2, as amended. When the reply text can be encoded as UTF-8 and \<open>json.loads\<close> raises
  \<open>JSONDecodeError\<close> for it, \<open>execute\<close> raises \<open>ValueError("Invalid JSON response from
  LLM.")\<close> caused by the \<open>JSONDecodeError\<close>; any other exception of \<open>json.loads\<close> (the
  \<open>RecursionError\<close> of a text nested too deeply, the \<open>ValueError\<close> of an integer literal
  with too many digits) leaves \<open>execute\<close> as it is. In both cases no result is returned
  and the chat was called exactly once.
\<close>

theorem execute_malformed_reply:
  assumes "snd (as_structured_llm llm OutputDocument (conversation up)) = Inr reply"
    and "utf8_encode reply = Some bytes"
    and "json_loads (python w) reply = Inl e"
  shows "\<exists>w'. execute (PyLLM llm) (PyStr up) w
               = (Inl (if e = JSONDecodeError
                       then ValueError (ascii ''Invalid JSON response from LLM.'')
                              (Some JSONDecodeError)
                       else e), w')
            \<and> chat_calls w' = chat_calls w @ [conversation up]"
  using assms
  by (cases "as_structured_llm llm OutputDocument (conversation up)")
     (simp add: execute_def chat_def Let_def conversation_def logger_def)

lemma loads_oops: "json_loads python0 (ascii ''oops'') = Inl JSONDecodeError"
  by (simp add: json_loads_def ascii_def skip_ws_def is_ws_def match_number_def match_sign_def
        match_int_def is_digit_def)

lemma loads_nested: "json_loads (python world2) (ascii ''[[[7]]]'') = Inl RecursionError"
  by (simp add: world2_def world0_def python0_def json_loads_def ascii_def skip_ws_def is_ws_def)

theorem execute_malformed_reply_witness:
  "json_loads (python world0) (ascii ''oops'') = Inl JSONDecodeError
   \<and> (\<exists>w'. execute (PyLLM (stub_llm 1 (Inr (ascii ''oops'')))) (PyStr (ascii ''hi'')) world0
               = (Inl (ValueError (ascii ''Invalid JSON response from LLM.'') (Some JSONDecodeError)), w')
            \<and> chat_calls w' = [conversation (ascii ''hi'')])
   \<and> json_loads (python world2) (ascii ''[[[7]]]'') = Inl RecursionError
   \<and> (\<exists>w'. execute (PyLLM (stub_llm 1 (Inr (ascii ''[[[7]]]'')))) (PyStr (ascii ''hi'')) world2
               = (Inl RecursionError, w')
            \<and> chat_calls w' = [conversation (ascii ''hi'')])"
proof -
  have s: "snd (as_structured_llm (stub_llm 1 (Inr (ascii ''oops''))) OutputDocument
             (conversation (ascii ''hi''))) = Inr (ascii ''oops'')"
    "snd (as_structured_llm (stub_llm 1 (Inr (ascii ''[[[7]]]''))) OutputDocument
             (conversation (ascii ''hi''))) = Inr (ascii ''[[[7]]]'')"
    by (simp_all add: stub_reply)
  have u: "utf8_encode (ascii ''oops'') = Some (ascii ''oops'')"
    "utf8_encode (ascii ''[[[7]]]'') = Some (ascii ''[[[7]]]'')"
    by (simp_all add: ascii_def utf8_char_def)
  have l: "json_loads (python world0) (ascii ''oops'') = Inl JSONDecodeError"
    by (simp add: loads_oops)
  show ?thesis
    using execute_malformed_reply [OF s(1) u(1) l]
      execute_malformed_reply [OF s(2) u(2) loads_nested] l loads_nested
    by (simp add: world0_def world2_def)
qed

text \<open>
  C2 as stated fails: the byte count is taken before the text is parsed, so a reply that
  holds a surrogate code point (which is not valid JSON either) ends in
  \<open>UnicodeEncodeError\<close>, not in the error that wraps the parse failure.
\<close>

theorem execute_surrogate_reply:
  "json_loads (python world0) [0xD800] = Inl JSONDecodeError
   \<and> fst (execute (PyLLM (stub_llm 1 (Inr [0xD800]))) (PyStr (ascii ''hi'')) world0)
       = Inl UnicodeEncodeError"
proof -
  have "json_loads (python world0) [0xD800] = Inl JSONDecodeError"
    by (simp add: json_loads_def ascii_def skip_ws_def is_ws_def match_number_def match_sign_def
        match_int_def is_digit_def)
  moreover have "utf8_encode [0xD800] = None"
    by (simp add: utf8_char_def)
  ultimately show ?thesis
    by (simp add: execute_def chat_def Let_def stub_reply)
qed

text \<open>
  The text \<open>NaN\<close> is not JSON, and \<open>json.loads\<close> accepts it: the call returns a result
  whose response is the float NaN.
\<close>

lemma execute_nan_reply:
  "\<exists>r w'. execute (PyLLM (stub_llm 1 (Inr (ascii ''NaN'')))) (PyStr (ascii ''hi'')) world0 = (Inr r, w')
      \<and> response r = JFloat NaN"
proof -
  have l: "json_loads (python world0) (ascii ''NaN'') = Inr (JFloat NaN)"
    by (simp add: json_loads_def ascii_def skip_ws_def is_ws_def match_number_def match_sign_def
        match_int_def is_digit_def)
  have u: "utf8_encode (ascii ''NaN'') = Some (ascii ''NaN'')"
    by (simp add: ascii_def utf8_char_def)
  have s: "snd (as_structured_llm (stub_llm 1 (Inr (ascii ''NaN''))) OutputDocument
             (conversation (ascii ''hi''))) = Inr (ascii ''NaN'')"
    by (simp add: stub_reply)
  from execute_returns [OF s u l] show ?thesis .
qed

text \<open>
  C5. The byte count in the metadata of a result is the length of the UTF-8 encoding of
  the reply text, and the response is what \<open>json.loads\<close> reads from that same text.
\<close>

theorem execute_response_byte_count:
  assumes "execute a b w = (Inr r, w')"
  shows "\<exists>llm up reply bytes.
           a = PyLLM llm \<and> b = PyStr up
         \<and> snd (as_structured_llm llm OutputDocument (conversation up)) = Inr reply
         \<and> utf8_encode reply = Some bytes
         \<and> dict_get (metadata r) (ascii ''response_byte_count'') = Some (JInt (int (length bytes)))
         \<and> json_loads (python w) reply = Inr (response r)"
  using assms
proof (rule execute_Inr)
  fix llm up reply bytes
  assume "a = PyLLM llm" "b = PyStr up"
    and "snd (as_structured_llm llm OutputDocument (conversation up)) = Inr reply"
    and "utf8_encode reply = Some bytes"
    and "json_loads (python w) reply = Inr (response r)"
    and "metadata r =
             dict_set (dict_set (dict_set (py_dict (llm_metadata llm))
               (ascii ''llm_classname'') (JStr (class_name llm)))
               (ascii ''duration'') (JInt \<lceil>fl64 (perf_counter w' - perf_counter w)\<rceil>))
               (ascii ''response_byte_count'') (JInt (int (length bytes)))"
  then show ?thesis by (simp add: dict_get_set)
qed

theorem execute_response_byte_count_witness:
  "\<exists>r w'. execute (PyLLM (stub_llm 1 (Inr [34, 233, 34]))) (PyStr (ascii ''hi'')) world0 = (Inr r, w')
      \<and> utf8_encode [34, 233, 34] = Some [34, 195, 169, 34]
      \<and> dict_get (metadata r) (ascii ''response_byte_count'') = Some (JInt 4)
      \<and> response r = JStr [233]"
proof -
  have s: "snd (as_structured_llm (stub_llm 1 (Inr [34, 233, 34])) OutputDocument
             (conversation (ascii ''hi''))) = Inr [34, 233, 34]"
    by (simp add: stub_reply)
  have u: "utf8_encode [34, 233, 34] = Some [34, 195, 169, 34]"
    by (simp add: utf8_char_def)
  have l: "json_loads (python world0) [34, 233, 34] = Inr (JStr [233])"
    by (simp add: json_loads_def skip_ws_def is_ws_def scanstring.simps)
  from execute_returns [OF s u l] obtain r w' where
    e: "execute (PyLLM (stub_llm 1 (Inr [34, 233, 34]))) (PyStr (ascii ''hi'')) world0 = (Inr r, w')"
    and r: "response r = JStr [233]"
    by blast
  from execute_response_byte_count [OF e] u e r show ?thesis
    by (auto simp: stub_reply)
qed

text \<open>
  C8. When the first argument is not an \<open>LLM\<close> or the second is not a \<open>str\<close>,
  \<open>execute\<close> raises \<open>ValueError\<close> and the world is unchanged: no chat call, no log
  record, no file.
\<close>

theorem execute_invalid_argument:
  assumes "\<not> isinstance_LLM a \<or> \<not> isinstance_str b"
  shows "execute a b w
           = (Inl (ValueError (if \<not> isinstance_LLM a then ascii ''Invalid LLM instance.''
                               else ascii ''Invalid query.'') None), w)"
  using assms
  by (auto simp: execute_def isinstance_LLM_def isinstance_str_def split: pyobj.splits)

theorem execute_invalid_argument_witness:
  "execute PyNone (PyStr (ascii ''hi'')) world0
     = (Inl (ValueError (ascii ''Invalid LLM instance.'') None), world0)
   \<and> execute (PyLLM (stub_llm 1 (Inr example_reply))) (PyInt 5) world0
     = (Inl (ValueError (ascii ''Invalid query.'') None), world0)"
  using execute_invalid_argument [of PyNone "PyStr (ascii ''hi'')" world0]
    execute_invalid_argument [of "PyLLM (stub_llm 1 (Inr example_reply))" "PyInt 5" world0]
  by (simp add: isinstance_LLM_def isinstance_str_def)

text \<open>
  C9. With an \<open>LLM\<close> and a \<open>str\<close>, \<open>execute\<close> makes one chat call with two messages, the
  system message with the stripped \<open>SYSTEM_PROMPT\<close> and the user message with the user
  prompt unchanged; a result records the same system text and the same user prompt.
\<close>

theorem execute_conversation:
  assumes "execute (PyLLM llm) (PyStr up) w = (res, w')"
  shows "chat_calls w' = chat_calls w @
           [[\<lparr>role = SYSTEM, content = strip SYSTEM_PROMPT\<rparr>, \<lparr>role = USER, content = up\<rparr>]]
       \<and> (\<forall>r. res = Inr r \<longrightarrow> system_prompt r = Some (strip SYSTEM_PROMPT) \<and> user_prompt r = up)"
  using assms
  by (auto simp: execute_def chat_def Let_def logger_def
           split: sum.splits option.splits prod.splits if_splits)

theorem execute_conversation_witness:
  "\<exists>r w'. execute (PyLLM (stub_llm 1 (Inr example_reply))) (PyStr (ascii ''hi'')) world0 = (Inr r, w')
     \<and> chat_calls w' =
           [[\<lparr>role = SYSTEM, content = strip SYSTEM_PROMPT\<rparr>, \<lparr>role = USER, content = ascii ''hi''\<rparr>]]
     \<and> system_prompt r = Some (strip SYSTEM_PROMPT) \<and> user_prompt r = ascii ''hi''"
proof -
  have s: "snd (as_structured_llm (stub_llm 1 (Inr example_reply)) OutputDocument
             (conversation (ascii ''hi''))) = Inr example_reply"
    by (simp add: stub_reply)
  from execute_returns [OF s utf8_example_reply, of world0 example_response]
  obtain r w' where
    e: "execute (PyLLM (stub_llm 1 (Inr example_reply))) (PyStr (ascii ''hi'')) world0 = (Inr r, w')"
    by (auto simp: loads_example_reply)
  from execute_conversation [OF e] e show ?thesis
    by (auto simp: world0_def)
qed

text \<open>
  C10. The metadata of a result has \<open>llm_classname\<close>, \<open>duration\<close> and
  \<open>response_byte_count\<close>, set by \<open>execute\<close> whatever the client's own metadata holds under
  these names: the name of the client's class, the ceiling of the double
  \<open>end_time - start_time\<close>, and the number of bytes of the reply in UTF-8. Every other key
  has the value it has in the client's metadata.
\<close>

theorem execute_metadata:
  assumes "execute a b w = (Inr r, w')"
  shows "\<exists>llm up reply bytes.
           a = PyLLM llm \<and> b = PyStr up
         \<and> snd (as_structured_llm llm OutputDocument (conversation up)) = Inr reply
         \<and> utf8_encode reply = Some bytes
         \<and> dict_get (metadata r) (ascii ''llm_classname'') = Some (JStr (class_name llm))
         \<and> dict_get (metadata r) (ascii ''duration'')
             = Some (JInt \<lceil>fl64 (perf_counter w' - perf_counter w)\<rceil>)
         \<and> dict_get (metadata r) (ascii ''response_byte_count'')
             = Some (JInt (int (length bytes)))
         \<and> (\<forall>k. k \<noteq> ascii ''llm_classname'' \<and> k \<noteq> ascii ''duration''
                  \<and> k \<noteq> ascii ''response_byte_count''
                \<longrightarrow> dict_get (metadata r) k = dict_get (py_dict (llm_metadata llm)) k)"
  using assms
proof (rule execute_Inr)
  fix llm up reply bytes
  assume "a = PyLLM llm" and "b = PyStr up"
    and "snd (as_structured_llm llm OutputDocument (conversation up)) = Inr reply"
    and "utf8_encode reply = Some bytes"
    and "metadata r =
             dict_set (dict_set (dict_set (py_dict (llm_metadata llm))
               (ascii ''llm_classname'') (JStr (class_name llm)))
               (ascii ''duration'') (JInt \<lceil>fl64 (perf_counter w' - perf_counter w)\<rceil>))
               (ascii ''response_byte_count'') (JInt (int (length bytes)))"
  then show ?thesis
    using metadata_keys_distinct by (simp add: dict_get_set)
qed

theorem execute_metadata_witness:
  "dict_get (py_dict (llm_metadata (stub_llm 23 (Inr example_reply)))) (ascii ''duration'')
     = Some (JInt 7)
   \<and> (\<exists>r w'. execute (PyLLM (stub_llm 23 (Inr example_reply))) (PyStr (ascii ''hi'')) world0
                = (Inr r, w')
        \<and> dict_get (metadata r) (ascii ''llm_classname'') = Some (JStr (ascii ''StubLLM''))
        \<and> dict_get (metadata r) (ascii ''duration'') = Some (JInt 3)
        \<and> dict_get (metadata r) (ascii ''response_byte_count'') = Some (JInt 54)
        \<and> dict_get (metadata r) (ascii ''model_name'') = Some (JStr (ascii ''stub'')))"
proof -
  have s: "snd (as_structured_llm (stub_llm 23 (Inr example_reply)) OutputDocument
             (conversation (ascii ''hi''))) = Inr example_reply"
    by (simp add: stub_reply)
  from execute_returns [OF s utf8_example_reply, of world0 example_response]
  obtain r w' where
    e: "execute (PyLLM (stub_llm 23 (Inr example_reply))) (PyStr (ascii ''hi'')) world0 = (Inr r, w')"
    by (auto simp: loads_example_reply)
  have k: "ascii ''model_name'' \<noteq> ascii ''llm_classname''" "ascii ''model_name'' \<noteq> ascii ''duration''"
    "ascii ''model_name'' \<noteq> ascii ''response_byte_count''"
    by (simp_all add: ascii_def)
  have m: "dict_get (py_dict (llm_metadata (stub_llm 23 (Inr example_reply)))) (ascii ''model_name'')
             = Some (JStr (ascii ''stub''))"
    "dict_get (py_dict (llm_metadata (stub_llm 23 (Inr example_reply)))) (ascii ''duration'')
             = Some (JInt 7)"
    by (simp_all add: dict_get_py_dict stub_llm_def ascii_def)
  have p: "perf_counter w' = fl64 (123 / 10)"
    using e by (rule execute_Inr) (auto simp: stub_reply perf_counter_def world0_def)
  have q: "fl64 (49 / 4) = 49 / 4" "fl64 (25 / 2) = 25 / 2" "fl64 (9 / 4) = 9 / 4"
    "fl64 (5 / 2) = 5 / 2"
    using fl64_dyadic [of 49 "- 2"] fl64_dyadic [of 25 "- 1"] fl64_dyadic [of 9 "- 2"]
      fl64_dyadic [of 5 "- 1"]
    by (simp_all add: power_int_minus)
  have "fl64 (49 / 4) \<le> fl64 (123 / 10)" "fl64 (123 / 10) \<le> fl64 (25 / 2)"
    by (rule fl64_mono, simp)+
  then have x: "9 / 4 \<le> perf_counter w' - perf_counter world0"
    "perf_counter w' - perf_counter world0 \<le> 5 / 2"
    by (simp_all add: p q perf_counter_world0)
  have "fl64 (9 / 4) \<le> fl64 (perf_counter w' - perf_counter world0)"
    "fl64 (perf_counter w' - perf_counter world0) \<le> fl64 (5 / 2)"
    using x by (simp_all only: fl64_mono)
  then have c: "\<lceil>fl64 (perf_counter w' - perf_counter world0)\<rceil> = 3"
    by (simp add: q ceiling_eq_iff)
  have len: "length example_reply = 54" by (simp add: example_reply_def ascii_def)
  from execute_metadata [OF e] obtain llm up reply bytes where
    f: "PyLLM (stub_llm 23 (Inr example_reply)) = PyLLM llm"
      "snd (as_structured_llm llm OutputDocument (conversation up)) = Inr reply"
      "utf8_encode reply = Some bytes"
      "dict_get (metadata r) (ascii ''llm_classname'') = Some (JStr (class_name llm))"
      "dict_get (metadata r) (ascii ''duration'')
         = Some (JInt \<lceil>fl64 (perf_counter w' - perf_counter world0)\<rceil>)"
      "dict_get (metadata r) (ascii ''response_byte_count'') = Some (JInt (int (length bytes)))"
      "\<forall>k. k \<noteq> ascii ''llm_classname'' \<and> k \<noteq> ascii ''duration''
            \<and> k \<noteq> ascii ''response_byte_count''
          \<longrightarrow> dict_get (metadata r) k = dict_get (py_dict (llm_metadata llm)) k"
    by blast
  from f(1) have llm: "llm = stub_llm 23 (Inr example_reply)" by simp
  from f(2) have "reply = example_reply" by (simp add: llm stub_reply)
  with f(3) have "bytes = example_reply" by (simp add: utf8_example_reply)
  with f(6) have bc: "dict_get (metadata r) (ascii ''response_byte_count'') = Some (JInt 54)"
    by (simp add: len)
  from f(4) have cn: "dict_get (metadata r) (ascii ''llm_classname'') = Some (JStr (ascii ''StubLLM''))"
    by (simp add: llm stub_llm_def)
  from f(5) c have du: "dict_get (metadata r) (ascii ''duration'') = Some (JInt 3)" by simp
  from f(7) k m(1) have mn: "dict_get (metadata r) (ascii ''model_name'') = Some (JStr (ascii ''stub''))"
    by (simp add: llm)
  from e m(2) cn du bc mn show ?thesis by blast
qed

section \<open>to_dict\<close>

text \<open>
  C7, as amended. With the three flags false, \<open>to_dict\<close> of a result whose response is a
  \<open>dict\<close> returns a mapping with exactly the keys of the response, each with the same
  value: it is the response itself, and no key is added.
\<close>

theorem to_dict_no_flags:
  assumes "response self = JObj d"
  shows "to_dict self False False False = Inr (JObj d)"
  using assms by (simp add: to_dict_def)

theorem to_dict_no_flags_witness:
  "to_dict example_result False False False
     = Inr (JObj [(ascii ''metadata'', JInt 1), (ascii ''final_markdown'', JStr (ascii ''x''))])"
  using to_dict_no_flags [of example_result
      "[(ascii ''metadata'', JInt 1), (ascii ''final_markdown'', JStr (ascii ''x''))]"]
  by (simp add: example_result_def)

text \<open>
  C7 as stated fails: \<open>execute\<close> puts whatever the reply parses to into the response. For
  the reply \<open>"\<close>e\<open>"\<close> (a JSON string) it returns a result whose response is a \<open>str\<close>,
  which has no \<open>copy\<close>, so \<open>to_dict\<close> raises \<open>AttributeError\<close> and returns no mapping.
\<close>

theorem to_dict_no_flags_str_response:
  "\<exists>r w'. execute (PyLLM (stub_llm 1 (Inr [34, 101, 34]))) (PyStr (ascii ''hi'')) world0 = (Inr r, w')
      \<and> response r = JStr [101]
      \<and> to_dict r False False False = Inl AttributeError"
proof -
  have s: "snd (as_structured_llm (stub_llm 1 (Inr [34, 101, 34])) OutputDocument
             (conversation (ascii ''hi''))) = Inr [34, 101, 34]"
    by (simp add: stub_llm_def)
  have u: "utf8_encode [34, 101, 34] = Some [34, 101, 34]"
    by (simp add: utf8_char_def)
  have l: "json_loads (python world0) [34, 101, 34] = Inr (JStr [101])"
    by (simp add: json_loads_def skip_ws_def is_ws_def scanstring.simps)
  from execute_returns [OF s u l] obtain r w' where
    "execute (PyLLM (stub_llm 1 (Inr [34, 101, 34]))) (PyStr (ascii ''hi'')) world0 = (Inr r, w')"
    and "response r = JStr [101]"
    by blast
  then show ?thesis by (auto simp: to_dict_def)
qed

text \<open>
  C6, as amended. With the three flags true, \<open>to_dict\<close> of a result whose response is a
  \<open>dict\<close> returns a mapping whose keys are those of the response and \<open>metadata\<close>, \<open>system_prompt\<close> and
  \<open>user_prompt\<close>; these three keys hold the result's metadata and prompts, also when the
  response has such a key itself (the later write wins), and every other key holds the
  response's value.
\<close>

theorem to_dict_all_flags:
  assumes "response self = JObj d"
  shows "\<exists>m. to_dict self True True True = Inr (JObj m)
           \<and> dict_keys m
               = dict_keys d \<union> {ascii ''metadata'', ascii ''system_prompt'', ascii ''user_prompt''}
           \<and> dict_get m (ascii ''metadata'') = Some (JObj (metadata self))
           \<and> dict_get m (ascii ''system_prompt'')
               = Some (case system_prompt self of None \<Rightarrow> JNull | Some s \<Rightarrow> JStr s)
           \<and> dict_get m (ascii ''user_prompt'') = Some (JStr (user_prompt self))
           \<and> (\<forall>k. k \<noteq> ascii ''metadata'' \<and> k \<noteq> ascii ''system_prompt''
                    \<and> k \<noteq> ascii ''user_prompt''
                  \<longrightarrow> dict_get m k = dict_get d k)"
  using assms to_dict_keys_distinct
  by (auto simp: to_dict_def Let_def dict_get_set dict_keys_set)

theorem to_dict_all_flags_witness:
  "response example_result
     = JObj [(ascii ''metadata'', JInt 1), (ascii ''final_markdown'', JStr (ascii ''x''))]
   \<and> (\<exists>m. to_dict example_result True True True = Inr (JObj m)
          \<and> dict_get m (ascii ''metadata'') = Some (JObj [(ascii ''duration'', JInt 3)])
          \<and> dict_get m (ascii ''system_prompt'') = Some JNull
          \<and> dict_get m (ascii ''user_prompt'') = Some (JStr (ascii ''q'')))"
  using to_dict_all_flags [of example_result
      "[(ascii ''metadata'', JInt 1), (ascii ''final_markdown'', JStr (ascii ''x''))]"]
  by (auto simp: example_result_def dict_get_def)

text \<open>
  C6 as stated fails: for the reply \<open>[]\<close> \<open>execute\<close> returns a result whose response is a
  \<open>list\<close>; its copy cannot be indexed by \<open>'metadata'\<close>, so \<open>to_dict\<close> raises \<open>TypeError\<close>.
\<close>

theorem to_dict_all_flags_list_response:
  "\<exists>r w'. execute (PyLLM (stub_llm 1 (Inr (ascii ''[]'')))) (PyStr (ascii ''hi'')) world0 = (Inr r, w')
      \<and> response r = JArr []
      \<and> to_dict r True True True = Inl TypeError"
proof -
  have s: "snd (as_structured_llm (stub_llm 1 (Inr (ascii ''[]''))) OutputDocument
             (conversation (ascii ''hi''))) = Inr (ascii ''[]'')"
    by (simp add: stub_llm_def)
  have u: "utf8_encode (ascii ''[]'') = Some (ascii ''[]'')"
    by (simp add: ascii_def utf8_char_def)
  have l: "json_loads (python world0) (ascii ''[]'') = Inr (JArr [])"
    by (simp add: json_loads_def ascii_def skip_ws_def is_ws_def)
  from execute_returns [OF s u l] obtain r w' where
    "execute (PyLLM (stub_llm 1 (Inr (ascii ''[]'')))) (PyStr (ascii ''hi'')) world0 = (Inr r, w')"
    and "response r = JArr []"
    by blast
  then show ?thesis by (auto simp: to_dict_def)
qed

section \<open>Numbers: the decimal digits and match_number\<close>


























section \<open>Strings: encode_basestring_ascii and scanstring\<close>





















section \<open>Values: json.dumps and json.loads\<close>


























lemma cost_pos: "0 < cost v"
  by (cases v) simp_all








section \<open>save_raw\<close>

lemma wf_str_below_surrogates:
  "list_all (\<lambda>c. c < 0xD800) s \<Longrightarrow> wf_str s"
proof (induction s rule: no_pair.induct)
  case (1 c d s)
  then show ?case by (simp add: wf_str_def valid_str_def is_high_def)
qed (simp_all add: wf_str_def valid_str_def)

lemma wf_str_keys:
  "wf_str (ascii ''metadata'')" "wf_str (ascii ''system_prompt'')" "wf_str (ascii ''user_prompt'')"
  by (rule wf_str_below_surrogates, simp add: ascii_def)+

lemma wf_dict_update:
  "wf_dict py d \<Longrightarrow> wf_str k \<Longrightarrow> wf_json py v \<Longrightarrow> wf_dict py (AList.update k v d)"
  by (induction d) auto

lemma wf_json_dict_set:
  assumes "wf_json py (JObj d)" and "wf_str k" and "wf_json py v"
  shows "wf_json py (JObj (dict_set d k v))"
  using assms by (simp add: dict_set_def distinct_update wf_dict_update)

lemma depth_dict_update:
  "depth_dict (AList.update k v d) \<le> max (depth_dict d) (json_depth v)"
  by (induction d) auto

text \<open>
  The mapping of a result is such a value when its response is a \<open>dict\<close> and its parts are
  such values; it is nested as deep as the response, or one deeper than the metadata.
\<close>

lemma wf_json_to_dict:
  assumes "response self = JObj d" and "wf_json py (JObj d)"
    and "wf_json py (JObj (metadata self))"
    and "wf_str (user_prompt self)"
    and "case system_prompt self of None \<Rightarrow> True | Some s \<Rightarrow> wf_str s"
  shows "\<exists>m. to_dict self True True True = Inr m \<and> wf_json py m
           \<and> json_depth m \<le> max (json_depth (JObj d)) (Suc (json_depth (JObj (metadata self))))"
proof -
  let ?sp = "case system_prompt self of None \<Rightarrow> JNull | Some s \<Rightarrow> JStr s"
  let ?d1 = "dict_set d (ascii ''metadata'') (JObj (metadata self))"
  let ?d2 = "dict_set ?d1 (ascii ''system_prompt'') ?sp"
  let ?d3 = "dict_set ?d2 (ascii ''user_prompt'') (JStr (user_prompt self))"
  have sp: "wf_json py ?sp"
    using assms(5) by (cases "system_prompt self") simp_all
  have sp0: "json_depth ?sp = 0" by (cases "system_prompt self") simp_all
  have up: "wf_json py (JStr (user_prompt self))" using assms(4) by simp
  have wf: "wf_json py (JObj ?d3)"
    by (intro wf_json_dict_set wf_str_keys assms(2,3) sp up)
  have "depth_dict ?d3 \<le> max (depth_dict ?d2) 0"
    using depth_dict_update [of "ascii ''user_prompt''" "JStr (user_prompt self)" ?d2]
    by (simp add: dict_set_def)
  moreover have "depth_dict ?d2 \<le> max (depth_dict ?d1) 0"
    using depth_dict_update [of "ascii ''system_prompt''" ?sp ?d1]
    by (simp add: dict_set_def sp0)
  moreover have "depth_dict ?d1 \<le> max (depth_dict d) (json_depth (JObj (metadata self)))"
    unfolding dict_set_def by (rule depth_dict_update)
  ultimately have "json_depth (JObj ?d3)
      \<le> max (json_depth (JObj d)) (Suc (json_depth (JObj (metadata self))))"
    by simp
  with wf show ?thesis using assms(1) by (simp add: to_dict_def Let_def)
qed







end
